theory Spec2Isabelle
  imports Main "HOL-Library.Word" "HOL-Library.Sublist"
begin

section \<open>Values, pointers and the standard streams\<close>

text \<open>
  A C++ \<^verbatim>\<open>int\<close> is a 32-bit machine integer.
\<close>

type_synonym cint = "32 word"

text \<open>
  The line feed written as \<^verbatim>\<open>"\n"\<close> in the string literals of \<^verbatim>\<open>main.cpp\<close>.
\<close>

definition LF :: char where
  "LF = CHR 0x0A"

text \<open>
  A \<^verbatim>\<open>std::shared_ptr\<close> is either null (default construction) or owns an object.
  No object of the program is mutated after its construction, so the pointee is kept by
  value. Dereferencing a null pointer is undefined behaviour in C++; the model makes it
  the error \<open>NullDereference\<close>. \<^verbatim>\<open>std::make_shared\<close> never returns null (storage
  exhaustion, which would throw, is outside the model).
\<close>

datatype error = NullDereference

type_synonym 'a shared_ptr = "'a option"

definition make_shared :: "'a \<Rightarrow> 'a shared_ptr" where
  "make_shared v = Some v"

definition deref :: "'a shared_ptr \<Rightarrow> error + 'a" where
  "deref p = (case p of None \<Rightarrow> Inl NullDereference | Some v \<Rightarrow> Inr v)"

text \<open>
  The process environment: the pending characters of standard input and the characters
  written to standard output so far. \<^verbatim>\<open>std::cout << s\<close> appends to the latter.
\<close>

record world =
  cin :: string
  cout :: string

definition put :: "string \<Rightarrow> world \<Rightarrow> world" where
  "put s w = w\<lparr>cout := cout w @ s\<rparr>"

text \<open>
  The lines of an output text: every line feed ends a line; characters after the last
  line feed form a last, unterminated line.
\<close>

fun lines_of :: "string \<Rightarrow> string list" where
  "lines_of [] = []"
| "lines_of (c # cs) =
     (if c = LF then [] # lines_of cs
      else (case lines_of cs of [] \<Rightarrow> [[c]] | l # ls \<Rightarrow> (c # l) # ls))"

section \<open>The shape hierarchy\<close>

text \<open>
  \<^verbatim>\<open>struct Point { int x; int y; Point(int _x = 0, int _y = 0) { x = _x; y = _y; } };\<close>
\<close>

record Point =
  x :: cint
  y :: cint

definition Point_ctor :: "cint \<Rightarrow> cint \<Rightarrow> Point" where
  "Point_ctor px py = \<lparr>x = px, y = py\<rparr>"

text \<open>
  \<^verbatim>\<open>class Shape\<close> holds the protected members \<^verbatim>\<open>center\<close> and \<^verbatim>\<open>type\<close>; its
  constructor stores the centre and the label \<^verbatim>\<open>"BaseFigure"\<close>. \<^verbatim>\<open>Circle\<close> and
  \<^verbatim>\<open>Square\<close> extend it by one private \<^verbatim>\<open>int\<close>. Their constructors first run the
  base constructor, then assign the own member and overwrite \<^verbatim>\<open>type\<close>.
\<close>

record Shape =
  center :: Point
  type :: string

record Circle = Shape +
  radius :: cint

record Square = Shape +
  side :: cint

definition Shape_ctor :: "Point \<Rightarrow> Shape" where
  "Shape_ctor c = \<lparr>center = c, type = ''BaseFigure''\<rparr>"

definition Circle_ctor :: "Point \<Rightarrow> cint \<Rightarrow> Circle" where
  "Circle_ctor cnt r =
     (let base = Shape_ctor cnt;
          obj = \<lparr>center = center base, type = type base, radius = r\<rparr>
      in obj\<lparr>type := ''Circle''\<rparr>)"

definition Square_ctor :: "Point \<Rightarrow> cint \<Rightarrow> Square" where
  "Square_ctor cnt r =
     (let base = Shape_ctor cnt;
          obj = \<lparr>center = center base, type = type base, side = r\<rparr>
      in obj\<lparr>type := ''Square''\<rparr>)"

text \<open>
  \<^verbatim>\<open>std::string GetType() const { return type; }\<close> is not virtual: it is inherited
  unchanged by every class derived from \<^verbatim>\<open>Shape\<close>.
\<close>

definition GetType :: "'a Shape_scheme \<Rightarrow> string" where
  "GetType s = type s"

text \<open>
  \<^verbatim>\<open>Shape\<close> is abstract (\<^verbatim>\<open>Draw\<close> is pure virtual), so a \<^verbatim>\<open>Shape\<close> handle refers to
  a \<^verbatim>\<open>Circle\<close> or to a \<^verbatim>\<open>Square\<close>. \<^verbatim>\<open>Draw\<close> dispatches on that dynamic class.
\<close>

datatype Shape_dyn = A_Circle Circle | A_Square Square

definition Circle_Draw :: "Circle \<Rightarrow> world \<Rightarrow> world" where
  "Circle_Draw c w = put (''Draw Circle!'' @ [LF]) w"

definition Square_Draw :: "Square \<Rightarrow> world \<Rightarrow> world" where
  "Square_Draw s w = put (''Draw Square!'' @ [LF]) w"

fun Draw :: "Shape_dyn \<Rightarrow> world \<Rightarrow> world" where
  "Draw (A_Circle c) w = Circle_Draw c w"
| "Draw (A_Square s) w = Square_Draw s w"

fun Shape_dyn_GetType :: "Shape_dyn \<Rightarrow> string" where
  "Shape_dyn_GetType (A_Circle c) = GetType c"
| "Shape_dyn_GetType (A_Square s) = GetType s"

section \<open>DrwManager\<close>

record DrwManager =
  shapeList :: "Shape_dyn shared_ptr list"

definition push_back :: "'a list \<Rightarrow> 'a \<Rightarrow> 'a list" where
  "push_back l v = l @ [v]"

definition DrwManager_ctor :: DrwManager where
  "DrwManager_ctor =
     (let p = Point_ctor 0 0;
          l = [];
          l = push_back l (make_shared (A_Square (Square_ctor p 3)));
          l = push_back l (make_shared (A_Circle (Circle_ctor p 3)))
      in \<lparr>shapeList = l\<rparr>)"

text \<open>
  \<^verbatim>\<open>for (const auto& shape : shapeList) { shape->Draw(); }\<close>: the range-based loop
  visits the list front to back; each step dereferences the handle.
\<close>

fun draw_each :: "Shape_dyn shared_ptr list \<Rightarrow> world \<Rightarrow> error + world" where
  "draw_each [] w = Inr w"
| "draw_each (shape # rest) w =
     (case deref shape of
        Inl e \<Rightarrow> Inl e
      | Inr s \<Rightarrow> draw_each rest (Draw s w))"

text \<open>
  \<^verbatim>\<open>drawShapes\<close> is a non-const member function: it returns the manager as it is after
  the call together with the environment.
\<close>

definition drawShapes :: "DrwManager \<Rightarrow> world \<Rightarrow> error + (DrwManager \<times> world)" where
  "drawShapes mgr w =
     (case draw_each (shapeList mgr) w of
        Inl e \<Rightarrow> Inl e
      | Inr w' \<Rightarrow> Inr (mgr, w'))"

section \<open>Phones and their factories\<close>

text \<open>
  \<^verbatim>\<open>Smartphone\<close> and \<^verbatim>\<open>BasicPhone\<close> are abstract classes derived from the interface
  \<^verbatim>\<open>Phone\<close>; each has three concrete classes, which store the name given to the
  constructor. A \<^verbatim>\<open>Phone\<close> handle refers to an object of one of the two families.
\<close>

datatype Smartphone =
  NokiaSmartphone string | SamsungSmartphone string | HTCSmartphone string

datatype BasicPhone =
  NokiaBasicPhone string | SamsungBasicPhone string | HTCBasicPhone string

datatype Phone = Smartphone_as_Phone Smartphone | BasicPhone_as_Phone BasicPhone

text \<open>
  The virtual \<^verbatim>\<open>getName\<close>: every concrete class overrides it with \<^verbatim>\<open>return name;\<close>.
\<close>

fun Smartphone_getName :: "Smartphone \<Rightarrow> string" where
  "Smartphone_getName (NokiaSmartphone name) = name"
| "Smartphone_getName (SamsungSmartphone name) = name"
| "Smartphone_getName (HTCSmartphone name) = name"

fun BasicPhone_getName :: "BasicPhone \<Rightarrow> string" where
  "BasicPhone_getName (NokiaBasicPhone name) = name"
| "BasicPhone_getName (SamsungBasicPhone name) = name"
| "BasicPhone_getName (HTCBasicPhone name) = name"

fun getName :: "Phone \<Rightarrow> string" where
  "getName (Smartphone_as_Phone p) = Smartphone_getName p"
| "getName (BasicPhone_as_Phone p) = BasicPhone_getName p"

text \<open>
  The family of the object behind a \<^verbatim>\<open>Phone\<close> handle, as a \<^verbatim>\<open>dynamic_cast\<close> to the
  family class would report it.
\<close>

fun is_Smartphone :: "Phone \<Rightarrow> bool" where
  "is_Smartphone (Smartphone_as_Phone p) = True"
| "is_Smartphone (BasicPhone_as_Phone p) = False"

fun is_BasicPhone :: "Phone \<Rightarrow> bool" where
  "is_BasicPhone (Smartphone_as_Phone p) = False"
| "is_BasicPhone (BasicPhone_as_Phone p) = True"

text \<open>
  The three concrete factories have no members; \<^verbatim>\<open>createSmartphone\<close> and
  \<^verbatim>\<open>createBasicPhone\<close> are virtual and dispatch on the factory's class.
\<close>

datatype PhoneFactory = NokiaFactory | SamsungFactory | HTCFactory

fun createSmartphone :: "PhoneFactory \<Rightarrow> string \<Rightarrow> Smartphone shared_ptr" where
  "createSmartphone NokiaFactory name = make_shared (NokiaSmartphone name)"
| "createSmartphone SamsungFactory name = make_shared (SamsungSmartphone name)"
| "createSmartphone HTCFactory name = make_shared (HTCSmartphone name)"

fun createBasicPhone :: "PhoneFactory \<Rightarrow> string \<Rightarrow> BasicPhone shared_ptr" where
  "createBasicPhone NokiaFactory name = make_shared (NokiaBasicPhone name)"
| "createBasicPhone SamsungFactory name = make_shared (SamsungBasicPhone name)"
| "createBasicPhone HTCFactory name = make_shared (HTCBasicPhone name)"

section \<open>The driver\<close>

text \<open>
  The local variables of one iteration of the loop of \<^verbatim>\<open>main\<close>, and \<^verbatim>\<open>man\<close>, which
  is declared before the loop and lives across iterations.
\<close>

record locals =
  factory :: "PhoneFactory shared_ptr"
  smartphone :: "Smartphone shared_ptr"
  basicPhone :: "BasicPhone shared_ptr"
  man :: string

text \<open>
  \<^verbatim>\<open>switch (i)\<close> with the labels 0, 1 and 2 and no \<^verbatim>\<open>default\<close>: any other value
  leaves the variables as they are. In each block the factory handle is assigned and
  then dereferenced by each of the two \<^verbatim>\<open>factory->create...\<close> calls.
\<close>

definition switch_i :: "cint \<Rightarrow> locals \<Rightarrow> error + locals" where
  "switch_i i v =
     (if i = 0 then
        (let v = v\<lparr>factory := make_shared NokiaFactory\<rparr> in
         case deref (factory v) of
           Inl e \<Rightarrow> Inl e
         | Inr f1 \<Rightarrow>
             (let v = v\<lparr>smartphone := createSmartphone f1 ''Nokia Smartphone''\<rparr> in
              case deref (factory v) of
                Inl e \<Rightarrow> Inl e
              | Inr f2 \<Rightarrow>
                  (let v = v\<lparr>basicPhone := createBasicPhone f2 ''Nokia Basic Phone''\<rparr>
                   in Inr (v\<lparr>man := ''Nokia''\<rparr>))))
      else if i = 1 then
        (let v = v\<lparr>factory := make_shared SamsungFactory\<rparr> in
         case deref (factory v) of
           Inl e \<Rightarrow> Inl e
         | Inr f1 \<Rightarrow>
             (let v = v\<lparr>smartphone := createSmartphone f1 ''Samsung Smartphone''\<rparr> in
              case deref (factory v) of
                Inl e \<Rightarrow> Inl e
              | Inr f2 \<Rightarrow>
                  (let v = v\<lparr>basicPhone := createBasicPhone f2 ''Samsung Basic Phone''\<rparr>
                   in Inr (v\<lparr>man := ''Samsung''\<rparr>))))
      else if i = 2 then
        (let v = v\<lparr>factory := make_shared HTCFactory\<rparr> in
         case deref (factory v) of
           Inl e \<Rightarrow> Inl e
         | Inr f1 \<Rightarrow>
             (let v = v\<lparr>smartphone := createSmartphone f1 ''HTC Smartphone''\<rparr> in
              case deref (factory v) of
                Inl e \<Rightarrow> Inl e
              | Inr f2 \<Rightarrow>
                  (let v = v\<lparr>basicPhone := createBasicPhone f2 ''HTC Basic Phone''\<rparr>
                   in Inr (v\<lparr>man := ''HTC''\<rparr>))))
      else Inr v)"

text \<open>
  The three output statements that end the loop body. The operands of a chain of
  \<^verbatim>\<open><<\<close> are evaluated left to right, so the label is written before the handle is
  dereferenced.
\<close>

definition print_phones :: "locals \<Rightarrow> world \<Rightarrow> error + world" where
  "print_phones v w =
     (let w = put [LF] (put (man v) (put ''Manufacturer: '' w));
          w = put ''Smarphone: '' w
      in case deref (smartphone v) of
           Inl e \<Rightarrow> Inl e
         | Inr sp \<Rightarrow>
             let w = put [LF] (put (getName (Smartphone_as_Phone sp)) w);
                 w = put ''Basic phone: '' w
             in (case deref (basicPhone v) of
                   Inl e \<Rightarrow> Inl e
                 | Inr bp \<Rightarrow> Inr (put [LF] (put (getName (BasicPhone_as_Phone bp)) w))))"

text \<open>
  The loop body: the three handles are default-constructed (null) at the start of every
  iteration; \<^verbatim>\<open>man\<close> keeps its value from the iteration before.
\<close>

definition loop_body :: "cint \<Rightarrow> string \<Rightarrow> world \<Rightarrow> error + (string \<times> world)" where
  "loop_body i m w =
     (let v = \<lparr>factory = None, smartphone = None, basicPhone = None, man = m\<rparr> in
      case switch_i i v of
        Inl e \<Rightarrow> Inl e
      | Inr v \<Rightarrow>
          (case print_phones v w of
             Inl e \<Rightarrow> Inl e
           | Inr w' \<Rightarrow> Inr (man v, w')))"

text \<open>
  \<^verbatim>\<open>for (int i = 0; i < 3; ++i)\<close>: the comparison is the signed one and the increment
  is the machine addition.
\<close>

function main_loop :: "cint \<Rightarrow> string \<Rightarrow> world \<Rightarrow> error + world" where
  "main_loop i m w =
     (if i <s 3 then
        (case loop_body i m w of
           Inl e \<Rightarrow> Inl e
         | Inr (m', w') \<Rightarrow> main_loop (i + 1) m' w')
      else Inr w)"
  by pat_completeness auto

termination main_loop
proof (relation "measure (\<lambda>(i, m, w). nat (3 - sint i))")
  show "wf (measure (\<lambda>(i, m, w). nat (3 - sint i)))"
    by simp
next
  fix i :: cint and m :: string and w :: world and r m' w'
  assume guard: "i <s 3"
  then have small: "sint i < 3"
    by (simp add: word_sless_alt)
  have "- (2 ^ 31) \<le> sint i"
    using sint_ge [of i] by simp
  with small have "signed_take_bit 31 (sint i + 1) = sint i + 1"
    by (intro signed_take_bit_int_eq_self) simp_all
  then have "sint (i + 1) = sint i + 1"
    by (simp add: sint_word_ariths)
  with small show "((i + 1, m', w'), (i, m, w)) \<in> measure (\<lambda>(i, m, w). nat (3 - sint i))"
    by simp
qed

declare main_loop.simps [simp del]

text \<open>
  \<^verbatim>\<open>int main()\<close>: \<^verbatim>\<open>std::string man;\<close> starts empty; after the loop the function
  returns 0, the exit code of the process.
\<close>

definition main :: "world \<Rightarrow> error + (cint \<times> world)" where
  "main w =
     (let m = [] in
      case main_loop 0 m w of
        Inl e \<Rightarrow> Inl e
      | Inr w' \<Rightarrow> Inr (0, w'))"

text \<open>
  One run of the executable: the process starts with nothing written to standard output
  and with \<open>input\<close> pending on standard input; what can be observed of it is the exit
  code and the text on standard output.
\<close>

definition run :: "string \<Rightarrow> error + (cint \<times> string)" where
  "run input =
     (case main \<lparr>cin = input, cout = []\<rparr> of
        Inl e \<Rightarrow> Inl e
      | Inr (code, w) \<Rightarrow> Inr (code, cout w))"

text \<open>
  The text made of the given lines, each ended by a line feed.
\<close>

definition unlines :: "string list \<Rightarrow> string" where
  "unlines ls = concat (map (\<lambda>l. l @ [LF]) ls)"

section \<open>Auxiliary facts\<close>

lemma put_put: "put b (put a w) = put (a @ b) w"
  by (simp add: put_def)

lemma put_nil: "put [] w = w"
  by (simp add: put_def)

lemma unlines_append: "unlines (ks @ ls) = unlines ks @ unlines ls"
  by (simp add: unlines_def)

lemma lines_of_line: "LF \<notin> set l \<Longrightarrow> lines_of (l @ LF # rest) = l # lines_of rest"
  by (induction l) auto

lemma lines_of_unlines:
  "(\<And>l. l \<in> set ls \<Longrightarrow> LF \<notin> set l) \<Longrightarrow> lines_of (unlines ls) = ls"
proof (induction ls)
  case Nil
  show ?case by (simp add: unlines_def)
next
  case (Cons k ks)
  have "unlines (k # ks) = k @ LF # unlines ks"
    by (simp add: unlines_def)
  moreover have "LF \<notin> set k"
    using Cons.prems by simp
  moreover have "lines_of (unlines ks) = ks"
    using Cons by simp
  ultimately show ?case
    by (simp add: lines_of_line)
qed

lemma switch_i_0:
  "switch_i 0 v =
     Inr (v\<lparr>factory := Some NokiaFactory,
            smartphone := Some (NokiaSmartphone ''Nokia Smartphone''),
            basicPhone := Some (NokiaBasicPhone ''Nokia Basic Phone''),
            man := ''Nokia''\<rparr>)"
  by (simp add: switch_i_def make_shared_def deref_def)

lemma switch_i_1:
  "switch_i 1 v =
     Inr (v\<lparr>factory := Some SamsungFactory,
            smartphone := Some (SamsungSmartphone ''Samsung Smartphone''),
            basicPhone := Some (SamsungBasicPhone ''Samsung Basic Phone''),
            man := ''Samsung''\<rparr>)"
  by (simp add: switch_i_def make_shared_def deref_def)

lemma switch_i_2:
  "switch_i 2 v =
     Inr (v\<lparr>factory := Some HTCFactory,
            smartphone := Some (HTCSmartphone ''HTC Smartphone''),
            basicPhone := Some (HTCBasicPhone ''HTC Basic Phone''),
            man := ''HTC''\<rparr>)"
  by (simp add: switch_i_def make_shared_def deref_def)

lemma loop_body_0:
  "loop_body 0 m w =
     Inr (''Nokia'', put (unlines [''Manufacturer: Nokia'', ''Smarphone: Nokia Smartphone'',
                                   ''Basic phone: Nokia Basic Phone'']) w)"
  by (simp add: loop_body_def switch_i_0 print_phones_def deref_def put_put unlines_def)

lemma loop_body_1:
  "loop_body 1 m w =
     Inr (''Samsung'', put (unlines [''Manufacturer: Samsung'', ''Smarphone: Samsung Smartphone'',
                                     ''Basic phone: Samsung Basic Phone'']) w)"
  by (simp add: loop_body_def switch_i_1 print_phones_def deref_def put_put unlines_def)

lemma loop_body_2:
  "loop_body 2 m w =
     Inr (''HTC'', put (unlines [''Manufacturer: HTC'', ''Smarphone: HTC Smartphone'',
                                 ''Basic phone: HTC Basic Phone'']) w)"
  by (simp add: loop_body_def switch_i_2 print_phones_def deref_def put_put unlines_def)

lemma main_loop_3: "main_loop 3 m w = Inr w"
  by (simp add: main_loop.simps [of 3])

lemma main_loop_2:
  "main_loop 2 m w =
     Inr (put (unlines [''Manufacturer: HTC'', ''Smarphone: HTC Smartphone'',
                        ''Basic phone: HTC Basic Phone'']) w)"
  by (simp add: main_loop.simps [of 2] loop_body_2 main_loop_3 word_sless_alt)

lemma main_loop_1:
  "main_loop 1 m w =
     Inr (put (unlines [''Manufacturer: Samsung'', ''Smarphone: Samsung Smartphone'',
                        ''Basic phone: Samsung Basic Phone'',
                        ''Manufacturer: HTC'', ''Smarphone: HTC Smartphone'',
                        ''Basic phone: HTC Basic Phone'']) w)"
  by (simp add: main_loop.simps [of 1] loop_body_1 main_loop_2 word_sless_alt put_put
      unlines_def)

lemma main_loop_0:
  "main_loop 0 m w =
     Inr (put (unlines [''Manufacturer: Nokia'', ''Smarphone: Nokia Smartphone'',
                        ''Basic phone: Nokia Basic Phone'',
                        ''Manufacturer: Samsung'', ''Smarphone: Samsung Smartphone'',
                        ''Basic phone: Samsung Basic Phone'',
                        ''Manufacturer: HTC'', ''Smarphone: HTC Smartphone'',
                        ''Basic phone: HTC Basic Phone'']) w)"
  by (simp add: main_loop.simps [of 0] loop_body_0 main_loop_1 word_sless_alt put_put
      unlines_def)

lemma main_eval:
  "main w =
     Inr (0, put (unlines [''Manufacturer: Nokia'', ''Smarphone: Nokia Smartphone'',
                           ''Basic phone: Nokia Basic Phone'',
                           ''Manufacturer: Samsung'', ''Smarphone: Samsung Smartphone'',
                           ''Basic phone: Samsung Basic Phone'',
                           ''Manufacturer: HTC'', ''Smarphone: HTC Smartphone'',
                           ''Basic phone: HTC Basic Phone'']) w)"
  by (simp add: main_def main_loop_0)

lemma run_eval:
  "run input =
     Inr (0, unlines [''Manufacturer: Nokia'', ''Smarphone: Nokia Smartphone'',
                      ''Basic phone: Nokia Basic Phone'',
                      ''Manufacturer: Samsung'', ''Smarphone: Samsung Smartphone'',
                      ''Basic phone: Samsung Basic Phone'',
                      ''Manufacturer: HTC'', ''Smarphone: HTC Smartphone'',
                      ''Basic phone: HTC Basic Phone''])"
  by (simp add: run_def main_eval put_def)

lemma phone_lines_of:
  "lines_of (unlines [''Manufacturer: Nokia'', ''Smarphone: Nokia Smartphone'',
                      ''Basic phone: Nokia Basic Phone'',
                      ''Manufacturer: Samsung'', ''Smarphone: Samsung Smartphone'',
                      ''Basic phone: Samsung Basic Phone'',
                      ''Manufacturer: HTC'', ''Smarphone: HTC Smartphone'',
                      ''Basic phone: HTC Basic Phone''])
   = [''Manufacturer: Nokia'', ''Smarphone: Nokia Smartphone'',
      ''Basic phone: Nokia Basic Phone'',
      ''Manufacturer: Samsung'', ''Smarphone: Samsung Smartphone'',
      ''Basic phone: Samsung Basic Phone'',
      ''Manufacturer: HTC'', ''Smarphone: HTC Smartphone'',
      ''Basic phone: HTC Basic Phone'']"
  by (rule lines_of_unlines) (auto simp: LF_def)

lemma shapeList_fresh:
  "shapeList DrwManager_ctor =
     [Some (A_Square \<lparr>center = \<lparr>x = 0, y = 0\<rparr>, type = ''Square'', side = 3\<rparr>),
      Some (A_Circle \<lparr>center = \<lparr>x = 0, y = 0\<rparr>, type = ''Circle'', radius = 3\<rparr>)]"
  by (simp add: DrwManager_ctor_def Point_ctor_def push_back_def make_shared_def
      Square_ctor_def Circle_ctor_def Shape_ctor_def Let_def)

lemma drawShapes_fresh:
  "drawShapes DrwManager_ctor w =
     Inr (DrwManager_ctor, put (unlines [''Draw Square!'', ''Draw Circle!'']) w)"
  by (simp add: drawShapes_def shapeList_fresh deref_def Circle_Draw_def Square_Draw_def
      put_put unlines_def)

lemma draw_lines_of:
  "lines_of (unlines [''Draw Square!'', ''Draw Circle!'']) = [''Draw Square!'', ''Draw Circle!'']"
  by (rule lines_of_unlines) (auto simp: LF_def)

text \<open>
  A call of \<^verbatim>\<open>Draw\<close> appends a text that depends on the shape only, and so does the
  loop over a list of handles.
\<close>

lemma Draw_appends: "\<exists>d. \<forall>w. Draw s w = put d w"
  by (cases s) (auto simp: Circle_Draw_def Square_Draw_def)

lemma draw_each_appends:
  "draw_each l w = Inr w1 \<Longrightarrow> \<exists>d. \<forall>u. draw_each l u = Inr (put d u)"
proof (induction l arbitrary: w w1)
  case Nil
  have "\<forall>u. draw_each [] u = Inr (put [] u)"
    by (simp add: put_nil)
  then show ?case ..
next
  case (Cons p l)
  from Cons.prems obtain s where p: "p = Some s"
    by (cases p) (auto simp: deref_def)
  with Cons.prems have "draw_each l (Draw s w) = Inr w1"
    by (simp add: deref_def)
  from Cons.IH [OF this] obtain d where d: "\<forall>u. draw_each l u = Inr (put d u)"
    by blast
  obtain c where c: "\<forall>u. Draw s u = put c u"
    using Draw_appends by blast
  have "\<forall>u. draw_each (p # l) u = Inr (put (c @ d) u)"
    by (simp add: p deref_def c d put_put)
  then show ?case ..
qed

section \<open>The claims\<close>

text \<open>
  C1, as amended. A run of the executable writes neither of the lines \<^verbatim>\<open>Draw Square!\<close> and
  \<^verbatim>\<open>Draw Circle!\<close> to standard output: \<^verbatim>\<open>main\<close> constructs no \<^verbatim>\<open>DrwManager\<close>. The two
  lines, in that order, are what \<^verbatim>\<open>drawShapes\<close> writes when it is called on a freshly
  constructed manager.
\<close>

theorem run_has_no_shape_lines:
  "(\<exists>text. run input = Inr (0, text)
      \<and> ''Draw Square!'' \<notin> set (lines_of text)
      \<and> ''Draw Circle!'' \<notin> set (lines_of text))
   \<and> (\<exists>mgr w. drawShapes DrwManager_ctor \<lparr>cin = input, cout = []\<rparr> = Inr (mgr, w)
      \<and> lines_of (cout w) = [''Draw Square!'', ''Draw Circle!''])"
proof -
  have "\<exists>text. run input = Inr (0, text)
      \<and> ''Draw Square!'' \<notin> set (lines_of text)
      \<and> ''Draw Circle!'' \<notin> set (lines_of text)"
    by (simp add: run_eval phone_lines_of)
  moreover have "\<exists>mgr w. drawShapes DrwManager_ctor \<lparr>cin = input, cout = []\<rparr> = Inr (mgr, w)
      \<and> lines_of (cout w) = [''Draw Square!'', ''Draw Circle!'']"
    by (simp add: drawShapes_fresh put_def draw_lines_of)
  ultimately show ?thesis ..
qed

text \<open>
  C1, as stated, fails: the standard output of a run is the nine lines of the phone demo,
  and the lines \<^verbatim>\<open>Draw Square!\<close>, \<^verbatim>\<open>Draw Circle!\<close> do not occur in it in that order, not even
  with other lines between them.
\<close>

theorem run_shape_lines_counterexample:
  "run [] =
     Inr (0, unlines [''Manufacturer: Nokia'', ''Smarphone: Nokia Smartphone'',
                      ''Basic phone: Nokia Basic Phone'',
                      ''Manufacturer: Samsung'', ''Smarphone: Samsung Smartphone'',
                      ''Basic phone: Samsung Basic Phone'',
                      ''Manufacturer: HTC'', ''Smarphone: HTC Smartphone'',
                      ''Basic phone: HTC Basic Phone''])
   \<and> \<not> subseq [''Draw Square!'', ''Draw Circle!'']
        (lines_of (unlines [''Manufacturer: Nokia'', ''Smarphone: Nokia Smartphone'',
                      ''Basic phone: Nokia Basic Phone'',
                      ''Manufacturer: Samsung'', ''Smarphone: Samsung Smartphone'',
                      ''Basic phone: Samsung Basic Phone'',
                      ''Manufacturer: HTC'', ''Smarphone: HTC Smartphone'',
                      ''Basic phone: HTC Basic Phone'']))"
  unfolding run_eval by (simp only: phone_lines_of) simp

text \<open>
  C2. The run prints exactly nine lines: for each of Nokia, Samsung and HTC, in this order,
  the lines \<^verbatim>\<open>Manufacturer: <Name>\<close>, \<^verbatim>\<open>Smarphone: <Name> Smartphone\<close> and
  \<^verbatim>\<open>Basic phone: <Name> Basic Phone\<close>, each ended by a line feed; the iterations with the
  indices 0, 1 and 2 pick Nokia, Samsung and HTC.
\<close>

theorem phone_demo_output:
  "(let expected = concat (map (\<lambda>n. [''Manufacturer: '' @ n,
                                        ''Smarphone: '' @ n @ '' Smartphone'',
                                        ''Basic phone: '' @ n @ '' Basic Phone''])
                             [''Nokia'', ''Samsung'', ''HTC''])
    in run input = Inr (0, unlines expected)
       \<and> lines_of (unlines expected) = expected
       \<and> length expected = 9)
   \<and> map (\<lambda>i. map_sum id fst (loop_body i m w)) [0, 1, 2]
       = [Inr ''Nokia'', Inr ''Samsung'', Inr ''HTC'']"
proof -
  have "run input = Inr (0, unlines (concat (map (\<lambda>n. [''Manufacturer: '' @ n,
                                        ''Smarphone: '' @ n @ '' Smartphone'',
                                        ''Basic phone: '' @ n @ '' Basic Phone''])
                             [''Nokia'', ''Samsung'', ''HTC''])))"
    unfolding run_eval by simp
  moreover have "lines_of (unlines (concat (map (\<lambda>n. [''Manufacturer: '' @ n,
                                        ''Smarphone: '' @ n @ '' Smartphone'',
                                        ''Basic phone: '' @ n @ '' Basic Phone''])
                             [''Nokia'', ''Samsung'', ''HTC''])))
      = concat (map (\<lambda>n. [''Manufacturer: '' @ n,
                                        ''Smarphone: '' @ n @ '' Smartphone'',
                                        ''Basic phone: '' @ n @ '' Basic Phone''])
                             [''Nokia'', ''Samsung'', ''HTC''])"
    using phone_lines_of by simp
  moreover have "map (\<lambda>i. map_sum id fst (loop_body i m w)) [0, 1, 2]
       = [Inr ''Nokia'', Inr ''Samsung'', Inr ''HTC'']"
    by (simp add: loop_body_0 loop_body_1 loop_body_2)
  ultimately show ?thesis
    by (simp add: Let_def)
qed

text \<open>
  C3. A freshly constructed \<^verbatim>\<open>DrwManager\<close> holds one \<^verbatim>\<open>Square\<close> and then one
  \<^verbatim>\<open>Circle\<close>, both with the centre (0, 0) and the size 3, and \<^verbatim>\<open>drawShapes\<close> appends
  exactly the two lines \<^verbatim>\<open>Draw Square!\<close> and \<^verbatim>\<open>Draw Circle!\<close>, in this order, to
  standard output.
\<close>

theorem DrwManager_fresh:
  "shapeList DrwManager_ctor =
     [Some (A_Square \<lparr>center = \<lparr>x = 0, y = 0\<rparr>, type = ''Square'', side = 3\<rparr>),
      Some (A_Circle \<lparr>center = \<lparr>x = 0, y = 0\<rparr>, type = ''Circle'', radius = 3\<rparr>)]
   \<and> drawShapes DrwManager_ctor w =
       Inr (DrwManager_ctor,
            w\<lparr>cout := cout w @ unlines [''Draw Square!'', ''Draw Circle!'']\<rparr>)
   \<and> lines_of (unlines [''Draw Square!'', ''Draw Circle!''])
       = [''Draw Square!'', ''Draw Circle!'']"
  by (simp only: shapeList_fresh drawShapes_fresh draw_lines_of put_def)

text \<open>
  C4. For each of the three factories and every name, the empty one included, the product
  of \<^verbatim>\<open>createSmartphone\<close> and the product of \<^verbatim>\<open>createBasicPhone\<close> exist and their
  \<^verbatim>\<open>getName\<close> returns the name unchanged.
\<close>

theorem created_phone_getName:
  "(\<exists>p. createSmartphone f name = Some p
       \<and> deref (createSmartphone f name) = Inr p
       \<and> getName (Smartphone_as_Phone p) = name)
   \<and> (\<exists>p. createBasicPhone f name = Some p
       \<and> deref (createBasicPhone f name) = Inr p
       \<and> getName (BasicPhone_as_Phone p) = name)"
  by (cases f) (simp_all add: make_shared_def deref_def)

text \<open>
  C5. Whatever the centre and the size given to the constructor, \<^verbatim>\<open>GetType\<close> returns
  \<^verbatim>\<open>"Circle"\<close> on a constructed \<^verbatim>\<open>Circle\<close> and \<^verbatim>\<open>"Square"\<close> on a constructed
  \<^verbatim>\<open>Square\<close>, also through a \<^verbatim>\<open>Shape\<close> handle.
\<close>

theorem GetType_constructed:
  "GetType (Circle_ctor c r) = ''Circle''
   \<and> GetType (Square_ctor c r) = ''Square''
   \<and> Shape_dyn_GetType (A_Circle (Circle_ctor c r)) = ''Circle''
   \<and> Shape_dyn_GetType (A_Square (Square_ctor c r)) = ''Square''"
  by (simp add: GetType_def Circle_ctor_def Square_ctor_def Shape_ctor_def)

text \<open>
  C6. For each factory and every name, the product of \<^verbatim>\<open>createSmartphone\<close> is of the
  \<^verbatim>\<open>Smartphone\<close> family and not of the \<^verbatim>\<open>BasicPhone\<close> family, the product of
  \<^verbatim>\<open>createBasicPhone\<close>, for the same name, is of the \<^verbatim>\<open>BasicPhone\<close> family and not of
  the \<^verbatim>\<open>Smartphone\<close> family, the two products differ, and no phone is of both families.
\<close>

theorem created_phone_families:
  "(\<exists>s b. createSmartphone f name = Some s \<and> createBasicPhone f name = Some b
       \<and> is_Smartphone (Smartphone_as_Phone s) \<and> \<not> is_BasicPhone (Smartphone_as_Phone s)
       \<and> is_BasicPhone (BasicPhone_as_Phone b) \<and> \<not> is_Smartphone (BasicPhone_as_Phone b)
       \<and> Smartphone_as_Phone s \<noteq> BasicPhone_as_Phone b)
   \<and> is_Smartphone p \<noteq> is_BasicPhone p"
proof -
  have "\<exists>s b. createSmartphone f name = Some s \<and> createBasicPhone f name = Some b
       \<and> is_Smartphone (Smartphone_as_Phone s) \<and> \<not> is_BasicPhone (Smartphone_as_Phone s)
       \<and> is_BasicPhone (BasicPhone_as_Phone b) \<and> \<not> is_Smartphone (BasicPhone_as_Phone b)
       \<and> Smartphone_as_Phone s \<noteq> BasicPhone_as_Phone b"
    by (cases f) (simp_all add: make_shared_def)
  moreover have "is_Smartphone p \<noteq> is_BasicPhone p"
    by (cases p) simp_all
  ultimately show ?thesis ..
qed

text \<open>
  C7. When a call of \<^verbatim>\<open>drawShapes\<close> returns, the manager is as it was before, a second
  call on it returns too and leaves it unchanged again, and the second call appends to
  standard output the same text as the first; for the freshly constructed manager this
  text is the two lines \<^verbatim>\<open>Draw Square!\<close> and \<^verbatim>\<open>Draw Circle!\<close>.
\<close>

theorem drawShapes_twice:
  assumes "drawShapes mgr w = Inr (mgr1, w1)"
  shows "mgr1 = mgr
    \<and> (\<exists>w2 d. drawShapes mgr1 w1 = Inr (mgr, w2)
          \<and> cout w1 = cout w @ d \<and> cout w2 = cout w1 @ d
          \<and> (mgr = DrwManager_ctor \<longrightarrow> d = unlines [''Draw Square!'', ''Draw Circle!'']))"
proof -
  from assms have same: "mgr1 = mgr" and first: "draw_each (shapeList mgr) w = Inr w1"
    by (auto simp: drawShapes_def split: sum.splits)
  from draw_each_appends [OF first] obtain d
    where d: "\<forall>u. draw_each (shapeList mgr) u = Inr (put d u)"
    by blast
  from d first have w1: "w1 = put d w"
    by simp
  have second: "drawShapes mgr1 w1 = Inr (mgr, put d w1)"
    by (simp add: same drawShapes_def d)
  have fresh: "d = unlines [''Draw Square!'', ''Draw Circle!'']" if "mgr = DrwManager_ctor"
  proof -
    have "drawShapes mgr w = Inr (mgr, put (unlines [''Draw Square!'', ''Draw Circle!'']) w)"
      using that drawShapes_fresh by simp
    with assms w1 have "put d w = put (unlines [''Draw Square!'', ''Draw Circle!'']) w"
      by simp
    then have "cout (put d w) = cout (put (unlines [''Draw Square!'', ''Draw Circle!'']) w)"
      by simp
    then show ?thesis
      by (simp add: put_def)
  qed
  have "drawShapes mgr1 w1 = Inr (mgr, put d w1)
      \<and> cout w1 = cout w @ d \<and> cout (put d w1) = cout w1 @ d
      \<and> (mgr = DrwManager_ctor \<longrightarrow> d = unlines [''Draw Square!'', ''Draw Circle!''])"
    using second w1 fresh by (simp add: put_def)
  then have "\<exists>w2 d. drawShapes mgr1 w1 = Inr (mgr, w2)
          \<and> cout w1 = cout w @ d \<and> cout w2 = cout w1 @ d
          \<and> (mgr = DrwManager_ctor \<longrightarrow> d = unlines [''Draw Square!'', ''Draw Circle!''])"
    by blast
  with same show ?thesis ..
qed

theorem drawShapes_twice_witness:
  "drawShapes DrwManager_ctor \<lparr>cin = [], cout = []\<rparr>
     = Inr (DrwManager_ctor, \<lparr>cin = [], cout = unlines [''Draw Square!'', ''Draw Circle!'']\<rparr>)
   \<and> (\<exists>w2. drawShapes DrwManager_ctor
              \<lparr>cin = [], cout = unlines [''Draw Square!'', ''Draw Circle!'']\<rparr>
            = Inr (DrwManager_ctor, w2)
        \<and> cout w2 = unlines [''Draw Square!'', ''Draw Circle!'']
                    @ unlines [''Draw Square!'', ''Draw Circle!''])"
proof -
  have first: "drawShapes DrwManager_ctor \<lparr>cin = [], cout = []\<rparr>
     = Inr (DrwManager_ctor, \<lparr>cin = [], cout = unlines [''Draw Square!'', ''Draw Circle!'']\<rparr>)"
    by (simp add: drawShapes_fresh put_def)
  from drawShapes_twice [OF first] have "\<exists>w2. drawShapes DrwManager_ctor
              \<lparr>cin = [], cout = unlines [''Draw Square!'', ''Draw Circle!'']\<rparr>
            = Inr (DrwManager_ctor, w2)
        \<and> cout w2 = unlines [''Draw Square!'', ''Draw Circle!'']
                    @ unlines [''Draw Square!'', ''Draw Circle!'']"
    by auto
  with first show ?thesis ..
qed

text \<open>
  C8. From every state of the standard streams, \<^verbatim>\<open>main\<close> returns, without an error, the
  exit code 0; so does every run of the executable.
\<close>

theorem main_exits_zero:
  "(\<exists>w'. main w = Inr (0, w')) \<and> (\<exists>text. run input = Inr (0, text))"
  by (simp add: main_eval run_eval)

text \<open>
  C9. For each index 0, 1 and 2, the \<^verbatim>\<open>switch\<close> started with three null handles ends with
  \<^verbatim>\<open>factory\<close>, \<^verbatim>\<open>smartphone\<close> and \<^verbatim>\<open>basicPhone\<close> all non-null, so the output statements
  after it and the whole loop body finish without dereferencing a null handle.
\<close>

theorem switch_assigns_handles:
  assumes "i \<in> {0, 1, 2}"
  shows "\<exists>v. switch_i i \<lparr>factory = None, smartphone = None, basicPhone = None, man = m\<rparr> = Inr v
    \<and> factory v \<noteq> None \<and> smartphone v \<noteq> None \<and> basicPhone v \<noteq> None
    \<and> (\<exists>w'. print_phones v w = Inr w')
    \<and> (\<exists>r. loop_body i m w = Inr r)"
proof -
  from assms consider "i = 0" | "i = 1" | "i = 2"
    by auto
  then show ?thesis
  proof cases
    case 1
    then show ?thesis
      by (simp add: loop_body_0 switch_i_0 print_phones_def deref_def)
  next
    case 2
    then show ?thesis
      by (simp add: loop_body_1 switch_i_1 print_phones_def deref_def)
  next
    case 3
    then show ?thesis
      by (simp add: loop_body_2 switch_i_2 print_phones_def deref_def)
  qed
qed

theorem switch_assigns_handles_witness:
  "(1 :: cint) \<in> {0, 1, 2}
   \<and> (\<exists>v. switch_i 1 \<lparr>factory = None, smartphone = None, basicPhone = None, man = ''Nokia''\<rparr>
            = Inr v
        \<and> factory v \<noteq> None \<and> smartphone v \<noteq> None \<and> basicPhone v \<noteq> None
        \<and> (\<exists>w'. print_phones v \<lparr>cin = [], cout = []\<rparr> = Inr w')
        \<and> (\<exists>r. loop_body 1 ''Nokia'' \<lparr>cin = [], cout = []\<rparr> = Inr r))"
proof -
  have member: "(1 :: cint) \<in> {0, 1, 2}"
    by simp
  from member switch_assigns_handles [OF member, of "''Nokia''" "\<lparr>cin = [], cout = []\<rparr>"]
  show ?thesis ..
qed

text \<open>
  C10. Whatever is pending on standard input, two runs end with the same exit code and the
  same text on standard output, and \<^verbatim>\<open>main\<close> leaves standard input as it found it.
\<close>

theorem run_deterministic:
  "run input1 = run input2 \<and> (\<exists>code w'. main w = Inr (code, w') \<and> cin w' = cin w)"
  by (simp add: run_eval main_eval put_def)

end
